theory Spec2Isabelle
  imports Main
begin

section \<open>Support models of enfugue.diffusion.support.model\<close>

text \<open>
  The module defines two classes: \<open>SupportModelImageProcessor\<close>, a callable that
  can be used in a \<open>with\<close> statement, and \<open>SupportModel\<close>, which holds a model
  directory, a device and a dtype and offers a context manager that releases memory
  after processing.

  Python objects are modelled by their attribute dictionaries (a map from attribute
  names to values), exceptions by values of type \<open>error\<close>, and the calls into the
  torch runtime and the garbage collector by events appended to a trace.
\<close>

subsection \<open>Values and exceptions\<close>

datatype error =
    NotImplementedError string
  | AttributeError string
  | ValueError string
  | RuntimeError string
  | OtherError string

text \<open>\<open>torch.device\<close>: a device type (\<open>cpu\<close>, \<open>cuda\<close>, \<open>mps\<close>, ...) and an
  optional ordinal.\<close>

datatype device = Device (type: string) (index: "nat option")

datatype dtype = float16 | bfloat16 | float32 | float64

text \<open>The values an attribute can hold. A processor is the object built by
  \<open>SupportModelImageProcessor.__init__\<close>, which stores its keyword arguments.\<close>

datatype pyval =
    PyNone
  | PyBool bool
  | PyStr string
  | PyDevice device
  | PyDtype dtype
  | PyProcessor SupportModelImageProcessor
and SupportModelImageProcessor =
    SupportModelImageProcessor (kwargs: "(string \<times> pyval) list")

text \<open>A statement or call runs in a state and either returns a value or raises;
  the state it leaves is kept in both cases.\<close>

type_synonym ('a, 's) py = "'s \<Rightarrow> (error + 'a) \<times> 's"

subsection \<open>SupportModelImageProcessor\<close>

text \<open>The state of a processor method is the processor object itself together
  with the rest of the program state, which the methods have no access to.\<close>

definition SupportModelImageProcessor_init ::
  "(string \<times> pyval) list \<Rightarrow> SupportModelImageProcessor" where
  "SupportModelImageProcessor_init kws = SupportModelImageProcessor kws"

definition SupportModelImageProcessor_enter ::
  "(SupportModelImageProcessor, SupportModelImageProcessor \<times> 'w) py" where
  "SupportModelImageProcessor_enter s = (Inr (fst s), s)"

definition SupportModelImageProcessor_exit ::
  "'a list \<Rightarrow> (pyval, SupportModelImageProcessor \<times> 'w) py" where
  "SupportModelImageProcessor_exit args s = (Inr PyNone, s)"

definition SupportModelImageProcessor_call ::
  "'img \<Rightarrow> ('img, SupportModelImageProcessor \<times> 'w) py" where
  "SupportModelImageProcessor_call img s =
     (Inl (NotImplementedError ''Implementation did not override __call__''), s)"

subsection \<open>Attribute access on a SupportModel\<close>

type_synonym instance_dict = "string \<rightharpoonup> pyval"

text \<open>The data attributes of the class body: \<open>process: Optional[...] = None\<close>.\<close>

definition SupportModel_class :: "string \<rightharpoonup> pyval" where
  "SupportModel_class = [''process'' \<mapsto> PyNone]"

text \<open>Attribute lookup: the instance dictionary first, then the class, else
  \<open>AttributeError\<close>.\<close>

definition getattr :: "instance_dict \<Rightarrow> string \<Rightarrow> error + pyval" where
  "getattr obj name =
     (case obj name of
        Some v \<Rightarrow> Inr v
      | None \<Rightarrow>
          (case SupportModel_class name of
             Some v \<Rightarrow> Inr v
           | None \<Rightarrow> Inl (AttributeError name)))"

text \<open>The three-argument \<open>getattr\<close>: only \<open>AttributeError\<close> is replaced by the
  default.\<close>

definition getattr_default :: "instance_dict \<Rightarrow> string \<Rightarrow> pyval \<Rightarrow> error + pyval" where
  "getattr_default obj name dflt =
     (case getattr obj name of
        Inl (AttributeError _) \<Rightarrow> Inr dflt
      | r \<Rightarrow> r)"

text \<open>The observable effects, in the order they happen: writes and deletions of
  instance attributes, \<open>torch.cuda.empty_cache()\<close>, \<open>torch.mps.empty_cache()\<close> and
  \<open>gc.collect()\<close>.\<close>

datatype event =
    SetAttr string pyval
  | DelAttr string
  | CudaEmptyCache
  | MpsEmptyCache
  | GcCollect

record world =
  self :: instance_dict
  trace :: "event list"

definition emit :: "event \<Rightarrow> world \<Rightarrow> world" where
  "emit ev w = w\<lparr>trace := trace w @ [ev]\<rparr>"

definition setattr :: "world \<Rightarrow> string \<Rightarrow> pyval \<Rightarrow> world" where
  "setattr w name v = emit (SetAttr name v) (w\<lparr>self := (self w)(name \<mapsto> v)\<rparr>)"

text \<open>\<open>del self.name\<close> removes an instance attribute and raises \<open>AttributeError\<close>
  when the instance has none of that name (a class attribute does not count).\<close>

definition delattr :: "world \<Rightarrow> string \<Rightarrow> error option \<times> world" where
  "delattr w name =
     (if self w name = None then (Some (AttributeError name), w)
      else (None, emit (DelAttr name) (w\<lparr>self := (self w)(name := None)\<rparr>)))"

subsection \<open>SupportModel.__init__\<close>

definition startswith :: "string \<Rightarrow> string \<Rightarrow> bool" where
  "startswith s p = (take (length p) s = p)"

text \<open>\<open>os.path.expanduser\<close> belongs to the platform, so the constructor takes it as
  its first argument: a function that returns the expanded path or raises. The
  annotation \<open>model_dir: str\<close> is not enforced, so \<open>model_dir\<close> is any value: on
  one that is not a string, \<open>model_dir.startswith\<close> raises \<open>AttributeError\<close>.
  The constructor has no handler, so whatever \<open>expanduser\<close> raises leaves it and
  no instance is built.\<close>

definition SupportModel_init ::
  "(string \<Rightarrow> error + string) \<Rightarrow> pyval \<Rightarrow> device \<Rightarrow> dtype \<Rightarrow> error + instance_dict" where
  "SupportModel_init expanduser model_dir device dtype =
     (case model_dir of
        PyStr s \<Rightarrow>
          (case (if startswith s ''~'' then expanduser s else Inr s) of
             Inl e \<Rightarrow> Inl e
           | Inr s' \<Rightarrow>
               Inr [''model_dir'' \<mapsto> PyStr s',
                    ''device'' \<mapsto> PyDevice device,
                    ''dtype'' \<mapsto> PyDtype dtype])
      | _ \<Rightarrow> Inl (AttributeError ''startswith''))"

subsection \<open>SupportModel.get_default_instance\<close>

text \<open>The configuration classes are not part of the module. A configuration is
  taken as a map from keys to the outcome of looking the key up: a value of any
  type, or an exception. \<open>configuration.get(key, default)\<close> returns the default
  when the key is absent.\<close>

type_synonym configuration = "string \<rightharpoonup> error + pyval"

definition configuration_get :: "configuration \<Rightarrow> string \<Rightarrow> pyval \<Rightarrow> error + pyval" where
  "configuration_get configuration key dflt =
     (case configuration key of Some r \<Rightarrow> r | None \<Rightarrow> Inr dflt)"

text \<open>The collaborators are arguments, each the outcome of the lines that use it:
  \<open>get_optimal_device\<close> of the imports and the call of lines 58 to 61,
  \<open>get_local_configuration\<close> of the call inside the \<open>try\<close>, and
  \<open>APIConfiguration\<close> of the import and the call inside the \<open>except\<close>. The device
  is resolved before the \<open>try\<close>, so its failure is not caught. The bare \<open>except\<close>
  catches every failure of \<open>get_local_configuration()\<close>, and nothing else: a failure
  of the handler itself, of \<open>configuration.get\<close> or of the constructor leaves the
  method.\<close>

definition get_default_instance ::
  "(string \<Rightarrow> error + string) \<Rightarrow> error + device \<Rightarrow> error + configuration
     \<Rightarrow> error + configuration \<Rightarrow> error + instance_dict" where
  "get_default_instance expanduser get_optimal_device get_local_configuration APIConfiguration =
     (case get_optimal_device of
        Inl e \<Rightarrow> Inl e
      | Inr device \<Rightarrow>
          (case (case get_local_configuration of
                   Inr c \<Rightarrow> Inr c
                 | Inl _ \<Rightarrow> APIConfiguration) of
             Inl e \<Rightarrow> Inl e
           | Inr configuration \<Rightarrow>
               (case configuration_get configuration
                       ''enfugue.engine.cache'' (PyStr ''~/.cache/enfugue/other'') of
                  Inl e \<Rightarrow> Inl e
                | Inr model_dir \<Rightarrow>
                    SupportModel_init expanduser model_dir device
                      (if type device = ''cuda'' then float16 else float32))))"

subsection \<open>SupportModel.context\<close>

text \<open>The generator runs \<open>self.loaded = True\<close> and yields: this is what entering
  the \<open>with\<close> statement executes.\<close>

definition context_enter :: "world \<Rightarrow> world" where
  "context_enter w = setattr w ''loaded'' (PyBool True)"

text \<open>\<open>if getattr(self, "process", None) is not None: del self.process\<close>\<close>

definition drop_process :: "world \<Rightarrow> error option \<times> world" where
  "drop_process w =
     (case getattr_default (self w) ''process'' PyNone of
        Inl e \<Rightarrow> (Some e, w)
      | Inr v \<Rightarrow> if v \<noteq> PyNone then delattr w ''process'' else (None, w))"

text \<open>\<open>self.device.type\<close>: the attribute may be missing, or hold a value that is
  not a device and has no \<open>type\<close>.\<close>

definition device_type :: "instance_dict \<Rightarrow> error + string" where
  "device_type obj =
     (case getattr obj ''device'' of
        Inl e \<Rightarrow> Inl e
      | Inr (PyDevice d) \<Rightarrow> Inr (type d)
      | Inr _ \<Rightarrow> Inl (AttributeError ''type''))"

text \<open>The torch runtime: what \<open>torch.cuda.empty_cache()\<close> and
  \<open>torch.mps.empty_cache()\<close> do when called, return (\<open>None\<close>) or raise.\<close>

record torch_runtime =
  cuda_empty_cache :: "error option"
  mps_empty_cache :: "error option"

text \<open>The \<open>if\<close>/\<open>elif\<close> on the device type. A call is recorded in the trace when
  it is made, whether it then returns or raises. The imports of \<open>torch\<close>,
  \<open>torch.cuda\<close> and \<open>torch.mps\<close> are taken to succeed and leave no event.\<close>

definition empty_cache :: "torch_runtime \<Rightarrow> world \<Rightarrow> error option \<times> world" where
  "empty_cache torch w =
     (case device_type (self w) of
        Inl e \<Rightarrow> (Some e, w)
      | Inr t \<Rightarrow>
          if t = ''cuda'' then (cuda_empty_cache torch, emit CudaEmptyCache w)
          else
            (case device_type (self w) of
               Inl e \<Rightarrow> (Some e, w)
             | Inr t' \<Rightarrow>
                 if t' = ''mps'' then (mps_empty_cache torch, emit MpsEmptyCache w)
                 else (None, w)))"

text \<open>The code after the \<open>yield\<close>, run when the generator is resumed. Nothing is
  guarded: an exception of a step leaves the generator and the later steps do not
  run.\<close>

definition context_exit :: "torch_runtime \<Rightarrow> world \<Rightarrow> error option \<times> world" where
  "context_exit torch w =
     (case drop_process (setattr w ''loaded'' (PyBool False)) of
        (Some e, w1) \<Rightarrow> (Some e, w1)
      | (None, w1) \<Rightarrow>
          (case empty_cache torch w1 of
             (Some e, w2) \<Rightarrow> (Some e, w2)
           | (None, w2) \<Rightarrow> (None, emit GcCollect w2)))"

text \<open>\<open>with model.context(): body\<close>. A body that raises has its exception thrown
  into the generator at the \<open>yield\<close>; the generator has no handler there, so the
  exception leaves the \<open>with\<close> statement and the code after the \<open>yield\<close> never runs.\<close>

definition with_context ::
  "torch_runtime \<Rightarrow> (world \<Rightarrow> error option \<times> world) \<Rightarrow> world \<Rightarrow> error option \<times> world" where
  "with_context torch body w =
     (case body (context_enter w) of
        (Some e, w') \<Rightarrow> (Some e, w')
      | (None, w') \<Rightarrow> context_exit torch w')"

text \<open>The body that does nothing, and the body that only raises.\<close>

definition pass :: "world \<Rightarrow> error option \<times> world" where
  "pass w = (None, w)"

definition raise :: "error \<Rightarrow> world \<Rightarrow> error option \<times> world" where
  "raise e w = (Some e, w)"

subsection \<open>The POSIX implementation of os.path.expanduser\<close>

text \<open>
  \<open>os.path.expanduser\<close> is part of the Python standard library, not of the
  repository. Its documentation says: if the expansion fails or if the path does not
  begin with a tilde, the path is returned unchanged. The definitions below follow
  the POSIX implementation (\<open>posixpath.expanduser\<close>) for \<open>str\<close> paths:
  \<^verbatim>\<open>
  def expanduser(path):
      if not path.startswith('~'):
          return path
      i = path.find('/', 1)
      if i < 0:
          i = len(path)
      if i == 1:
          if 'HOME' not in os.environ:
              try:
                  userhome = pwd.getpwuid(os.getuid()).pw_dir
              except KeyError:
                  return path
          else:
              userhome = os.environ['HOME']
      else:
          name = path[1:i]
          try:
              pwent = pwd.getpwnam(name)
          except KeyError:
              return path
          userhome = pwent.pw_dir
      userhome = userhome.rstrip('/')
      return (userhome + path[i:]) or '/'
  \<close>
  Only \<open>KeyError\<close> is handled: \<open>pwd.getpwnam\<close> raises \<open>ValueError\<close> (embedded
  null byte) for a name that holds a NUL character, and that exception leaves
  \<open>expanduser\<close>. Strings are lists of 8-bit characters here.

  The part of the process environment it reads: the variable \<open>HOME\<close>, the home
  directory of the current user in the password database (absent when the lookup
  raises \<open>KeyError\<close>), and the home directories of the users known by name.
\<close>

record posix_env =
  HOME :: "string option"
  getpwuid_dir :: "string option"
  getpwnam_dir :: "string \<rightharpoonup> string"

text \<open>The index \<open>i\<close>: \<open>path.find('/', 1)\<close>, or the length of the path when there
  is no slash after the first character.\<close>

definition find_sep :: "string \<Rightarrow> nat" where
  "find_sep path = 1 + length (takeWhile (\<lambda>c. c \<noteq> CHR ''/'') (drop 1 path))"

text \<open>\<open>userhome.rstrip('/')\<close>\<close>

definition rstrip_sep :: "string \<Rightarrow> string" where
  "rstrip_sep s = rev (dropWhile (\<lambda>c. c = CHR ''/'') (rev s))"

text \<open>\<open>pwd.getpwnam(name)\<close>: \<open>ValueError\<close> for a name with a NUL character,
  else the home directory of the user, or \<open>None\<close> for \<open>KeyError\<close>.\<close>

definition getpwnam :: "posix_env \<Rightarrow> string \<Rightarrow> error + string option" where
  "getpwnam env name =
     (if CHR 0x00 \<in> set name then Inl (ValueError ''embedded null byte'')
      else Inr (getpwnam_dir env name))"

text \<open>The home directory the two branches on \<open>i\<close> look up; \<open>None\<close> where the
  source returns the path unchanged.\<close>

definition userhome :: "posix_env \<Rightarrow> string \<Rightarrow> error + string option" where
  "userhome env path =
     (if find_sep path = 1 then
        Inr (case HOME env of Some h \<Rightarrow> Some h | None \<Rightarrow> getpwuid_dir env)
      else getpwnam env (take (find_sep path - 1) (drop 1 path)))"

text \<open>A path that does not start with a tilde, or whose user is not known, is
  returned unchanged.\<close>

definition posix_expanduser :: "posix_env \<Rightarrow> string \<Rightarrow> error + string" where
  "posix_expanduser env path =
     (if \<not> startswith path ''~'' then Inr path
      else
        (case userhome env path of
           Inl e \<Rightarrow> Inl e
         | Inr None \<Rightarrow> Inr path
         | Inr (Some h) \<Rightarrow>
             (let r = rstrip_sep h @ drop (find_sep path) path
              in Inr (if r = [] then ''/'' else r))))"

subsection \<open>Auxiliary notions for the statements\<close>

text \<open>An instance holds a processor reference when it has an instance attribute
  \<open>process\<close> whose value is not \<open>None\<close>.\<close>

definition held :: "instance_dict \<Rightarrow> bool" where
  "held obj = (case obj ''process'' of None \<Rightarrow> False | Some v \<Rightarrow> v \<noteq> PyNone)"

text \<open>The outcome of the cache release the exit requests for a device type, and
  the call it records.\<close>

definition cache_release :: "torch_runtime \<Rightarrow> string \<Rightarrow> error option" where
  "cache_release torch t =
     (if t = ''cuda'' then cuda_empty_cache torch
      else if t = ''mps'' then mps_empty_cache torch
      else None)"

definition cache_calls :: "string \<Rightarrow> event list" where
  "cache_calls t =
     (if t = ''cuda'' then [CudaEmptyCache]
      else if t = ''mps'' then [MpsEmptyCache]
      else [])"

text \<open>A program state holding one object and an empty trace.\<close>

definition fresh :: "instance_dict \<Rightarrow> world" where
  "fresh obj = \<lparr>self = obj, trace = []\<rparr>"

text \<open>The body \<open>self.process = v\<close>.\<close>

definition set_process :: "pyval \<Rightarrow> world \<Rightarrow> error option \<times> world" where
  "set_process v w = (None, setattr w ''process'' v)"

text \<open>The attributes of an instance built from a path, a device and a dtype.\<close>

definition attributes :: "string \<Rightarrow> device \<Rightarrow> dtype \<Rightarrow> instance_dict" where
  "attributes s d t =
     [''model_dir'' \<mapsto> PyStr s, ''device'' \<mapsto> PyDevice d, ''dtype'' \<mapsto> PyDtype t]"

text \<open>A POSIX environment with one user, \<open>user\<close>, whose home directory is
  \<open>/home/user\<close>.\<close>

definition env_user :: posix_env where
  "env_user = \<lparr>HOME = Some ''/home/user'', getpwuid_dir = Some ''/home/user'',
                getpwnam_dir = [''user'' \<mapsto> ''/home/user'']\<rparr>"

text \<open>A runtime whose cache releases return, and one without an MPS backend.\<close>

definition torch_ok :: torch_runtime where
  "torch_ok = \<lparr>cuda_empty_cache = None, mps_empty_cache = None\<rparr>"

definition torch_no_mps :: torch_runtime where
  "torch_no_mps =
     \<lparr>cuda_empty_cache = None,
      mps_empty_cache = Some (RuntimeError ''MPS backend not available'')\<rparr>"

section \<open>Auxiliary lemmas\<close>

subsection \<open>Attributes and the exit\<close>

lemma self_emit: "self (emit ev w) = self w"
  by (simp add: emit_def)

lemma trace_emit: "trace (emit ev w) = trace w @ [ev]"
  by (simp add: emit_def)

lemma self_setattr: "self (setattr w name v) = (self w)(name \<mapsto> v)"
  by (simp add: setattr_def self_emit)

lemma trace_setattr: "trace (setattr w name v) = trace w @ [SetAttr name v]"
  by (simp add: setattr_def trace_emit)

lemma getattr_instance: "obj name = Some v \<Longrightarrow> getattr obj name = Inr v"
  by (simp add: getattr_def)

lemma getattr_process_absent: "obj ''process'' = None \<Longrightarrow> getattr obj ''process'' = Inr PyNone"
  by (simp add: getattr_def SupportModel_class_def)

lemma held_getattr: "held obj \<longleftrightarrow> getattr obj ''process'' \<noteq> Inr PyNone"
  by (cases "obj ''process''") (simp_all add: held_def getattr_def SupportModel_class_def)

lemma drop_process_eq:
  "drop_process w =
     (None, if held (self w)
            then emit (DelAttr ''process'') (w\<lparr>self := (self w)(''process'' := None)\<rparr>)
            else w)"
  by (cases "self w ''process''")
     (simp_all add: drop_process_def getattr_default_def getattr_def SupportModel_class_def
        delattr_def held_def)

lemma self_drop_process:
  "self (snd (drop_process w)) = (if held (self w) then (self w)(''process'' := None) else self w)"
  by (simp add: drop_process_eq self_emit)







lemma empty_cache_eq:
  "device_type (self w) = Inr t \<Longrightarrow>
   empty_cache torch w = (cache_release torch t, w\<lparr>trace := trace w @ cache_calls t\<rparr>)"
  by (simp add: empty_cache_def cache_release_def cache_calls_def emit_def)

lemma empty_cache_raises:
  "device_type (self w) = Inl e \<Longrightarrow> empty_cache torch w = (Some e, w)"
  by (simp add: empty_cache_def)

lemma self_empty_cache: "self (snd (empty_cache torch w)) = self w"
  by (cases "device_type (self w)") (simp_all add: empty_cache_eq empty_cache_raises)

lemma context_exit_unfold:
  "context_exit torch w =
     (case empty_cache torch (snd (drop_process (setattr w ''loaded'' (PyBool False)))) of
        (Some e, w2) \<Rightarrow> (Some e, w2)
      | (None, w2) \<Rightarrow> (None, emit GcCollect w2))"
  by (simp add: context_exit_def drop_process_eq)

lemma self_context_exit:
  "self (snd (context_exit torch w)) =
     (if held (self w) then (self w)(''loaded'' \<mapsto> PyBool False, ''process'' := None)
      else (self w)(''loaded'' \<mapsto> PyBool False))"
proof -
  let ?w1 = "snd (drop_process (setattr w ''loaded'' (PyBool False)))"
  have h: "held (self (setattr w ''loaded'' (PyBool False))) = held (self w)"
    by (simp add: held_def self_setattr)
  obtain r w2 where e: "empty_cache torch ?w1 = (r, w2)"
    by (cases "empty_cache torch ?w1")
  then have "self w2 = self ?w1"
    using self_empty_cache [of torch ?w1] by simp
  then have "self (snd (context_exit torch w)) = self ?w1"
    using e by (cases r) (simp_all add: context_exit_unfold self_emit)
  then show ?thesis
    using h by (simp add: self_drop_process self_setattr)
qed

lemma device_type_after_drop:
  assumes "device_type (self w) = Inr t"
  shows "device_type (self (snd (drop_process (setattr w ''loaded'' (PyBool False))))) = Inr t"
proof -
  have "device_type (self (setattr w ''loaded'' (PyBool False))) = Inr t"
    using assms by (simp add: self_setattr device_type_def getattr_def)
  then show ?thesis
    by (simp add: self_drop_process device_type_def getattr_def)
qed

lemma context_exit_result:
  assumes "device_type (self w) = Inr t"
  shows "fst (context_exit torch w) = cache_release torch t"
  using device_type_after_drop [OF assms]
  by (cases "cache_release torch t") (simp_all add: context_exit_unfold empty_cache_eq)

lemma trace_context_exit:
  assumes "device_type (self w) = Inr t"
  shows "trace (snd (context_exit torch w)) =
             trace w
             @ [SetAttr ''loaded'' (PyBool False)]
             @ (if held (self w) then [DelAttr ''process''] else [])
             @ cache_calls t
             @ (if cache_release torch t = None then [GcCollect] else [])"
  using device_type_after_drop [OF assms]
  by (cases "cache_release torch t")
     (simp_all add: context_exit_unfold empty_cache_eq drop_process_eq trace_emit
        trace_setattr self_setattr held_def)

subsection \<open>The constructor\<close>

lemma SupportModel_init_str:
  "SupportModel_init x (PyStr s) d t =
     (case (if startswith s ''~'' then x s else Inr s) of
        Inl e \<Rightarrow> Inl e
      | Inr s' \<Rightarrow> Inr (attributes s' d t))"
  by (simp add: SupportModel_init_def attributes_def split: sum.splits)

lemma SupportModel_init_Inr:
  assumes "SupportModel_init x v d t = Inr obj"
  shows "\<exists>s'. obj = attributes s' d t"
proof (cases v)
  case (PyStr s)
  with assms show ?thesis
    by (cases "if startswith s ''~'' then x s else Inr s") (auto simp: SupportModel_init_str)
qed (use assms in \<open>simp_all add: SupportModel_init_def\<close>)

lemma getattr_attributes:
  "getattr (attributes s d t) ''model_dir'' = Inr (PyStr s)"
  "getattr (attributes s d t) ''device'' = Inr (PyDevice d)"
  "getattr (attributes s d t) ''dtype'' = Inr (PyDtype t)"
  "getattr (attributes s d t) ''loaded'' = Inl (AttributeError ''loaded'')"
  "attributes s d t ''loaded'' = None"
  "attributes s d t ''process'' = None"
  by (simp_all add: attributes_def getattr_def SupportModel_class_def)

lemma device_type_attributes: "device_type (attributes s d t) = Inr (type d)"
  by (simp add: device_type_def getattr_attributes)

subsection \<open>Home-directory expansion\<close>




lemma expanduser_env_user:
  "posix_expanduser env_user ''~/models'' = Inr ''/home/user/models''"
  "posix_expanduser env_user ''~user/models'' = Inr ''/home/user/models''"
  "posix_expanduser env_user ''~nosuchuser/models'' = Inr ''~nosuchuser/models''"
  "posix_expanduser env_user [CHR ''~'', CHR ''a'', CHR 0x00, CHR ''b'', CHR ''/'', CHR ''x''] =
     Inl (ValueError ''embedded null byte'')"
  by (simp_all add: posix_expanduser_def startswith_def userhome_def getpwnam_def find_sep_def
      rstrip_sep_def env_user_def)

subsection \<open>The default instance\<close>

lemma get_default_instance_device_raises:
  "get_default_instance x (Inl e) glc api = Inl e"
  by (simp add: get_default_instance_def)

lemma get_default_instance_fallback:
  "get_default_instance x (Inr d) (Inl e) api =
     (case api of
        Inl e' \<Rightarrow> Inl e'
      | Inr c \<Rightarrow>
          (case configuration_get c ''enfugue.engine.cache'' (PyStr ''~/.cache/enfugue/other'') of
             Inl e' \<Rightarrow> Inl e'
           | Inr v \<Rightarrow>
               SupportModel_init x v d (if type d = ''cuda'' then float16 else float32)))"
  by (simp add: get_default_instance_def)

lemma get_default_instance_primary:
  "get_default_instance x (Inr d) (Inr c) api =
     (case configuration_get c ''enfugue.engine.cache'' (PyStr ''~/.cache/enfugue/other'') of
        Inl e' \<Rightarrow> Inl e'
      | Inr v \<Rightarrow>
          SupportModel_init x v d (if type d = ''cuda'' then float16 else float32))"
  by (simp add: get_default_instance_def)

lemma get_default_instance_Inr:
  assumes "get_default_instance x god glc api = Inr obj"
  shows "\<exists>d s. god = Inr d
           \<and> obj = attributes s d (if type d = ''cuda'' then float16 else float32)"
proof (cases god)
  case (Inl e)
  with assms show ?thesis
    by (simp add: get_default_instance_device_raises)
next
  case (Inr d)
  let ?t = "if type d = ''cuda'' then float16 else float32"
  have "\<exists>v. SupportModel_init x v d ?t = Inr obj"
    using assms Inr
    by (auto simp: get_default_instance_def split: sum.splits)
  then obtain s where "obj = attributes s d ?t"
    using SupportModel_init_Inr by blast
  with Inr show ?thesis
    by blast
qed


section \<open>Properties\<close>

subsection \<open>Construction\<close>







subsection \<open>The state after a normal exit\<close>

text \<open>
  C2. When the body of the \<open>with\<close> statement completes without raising, whatever
  it did to the object and to the trace, afterwards \<open>loaded\<close> is \<open>False\<close> and
  \<open>process\<close> reads as \<open>None\<close>, whether the cache release then returns or
  raises. If the body left a device in \<open>self.device\<close>, the outcome of the \<open>with\<close>
  statement is the outcome of the cache release for that device type: it completes
  without raising exactly when the release does.
\<close>

theorem context_normal_exit_state:
  assumes "body (context_enter w) = (None, w')"
  shows "getattr (self (snd (with_context torch body w))) ''loaded'' = Inr (PyBool False)
         \<and> getattr (self (snd (with_context torch body w))) ''process'' = Inr PyNone
         \<and> (\<forall>t. device_type (self w') = Inr t \<longrightarrow>
              fst (with_context torch body w) =
                (if t = ''cuda'' then cuda_empty_cache torch
                 else if t = ''mps'' then mps_empty_cache torch
                 else None))"
proof -
  have w: "with_context torch body w = context_exit torch w'"
    using assms by (simp add: with_context_def)
  have "getattr (self (snd (context_exit torch w'))) ''loaded'' = Inr (PyBool False)"
    by (simp add: self_context_exit getattr_def)
  moreover have "getattr (self (snd (context_exit torch w'))) ''process'' = Inr PyNone"
    by (simp add: self_context_exit getattr_def SupportModel_class_def held_def
        split: option.splits)
  moreover have "\<forall>t. device_type (self w') = Inr t \<longrightarrow>
      fst (context_exit torch w') =
        (if t = ''cuda'' then cuda_empty_cache torch
         else if t = ''mps'' then mps_empty_cache torch
         else None)"
    by (simp add: context_exit_result cache_release_def)
  ultimately show ?thesis
    using w by simp
qed


theorem context_normal_exit_state_witness:
  "getattr (self (snd (with_context torch_ok
       (set_process (PyProcessor (SupportModelImageProcessor [])))
       (fresh (attributes ''/models'' (Device ''cuda'' (Some 0)) float16)))))
     ''loaded'' = Inr (PyBool False)
   \<and> getattr (self (snd (with_context torch_ok
       (set_process (PyProcessor (SupportModelImageProcessor [])))
       (fresh (attributes ''/models'' (Device ''cuda'' (Some 0)) float16)))))
     ''process'' = Inr PyNone
   \<and> fst (with_context torch_ok
       (set_process (PyProcessor (SupportModelImageProcessor [])))
       (fresh (attributes ''/models'' (Device ''cuda'' (Some 0)) float16))) = None"
proof -
  let ?w = "fresh (attributes ''/models'' (Device ''cuda'' (Some 0)) float16)"
  let ?p = "PyProcessor (SupportModelImageProcessor [])"
  let ?w' = "setattr (context_enter ?w) ''process'' ?p"
  have b: "set_process ?p (context_enter ?w) = (None, ?w')"
    by (simp add: set_process_def)
  have d: "device_type (self ?w') = Inr ''cuda''"
    by (simp add: device_type_def getattr_def self_setattr context_enter_def fresh_def
        attributes_def)
  have c: "cuda_empty_cache torch_ok = None"
    by (simp add: torch_ok_def)
  show ?thesis
    using context_normal_exit_state [of "set_process ?p" ?w ?w' torch_ok] b d c by simp
qed


subsection \<open>A body that raises\<close>

text \<open>
  C3. When the body raises, the \<open>with\<close> statement raises the same exception and
  the state is exactly the one the body left: nothing is appended to the trace (no
  cache release, no garbage collection), \<open>process\<close> is not deleted, and \<open>loaded\<close>,
  set to \<open>True\<close> on entry, is still \<open>True\<close> unless the body itself changed it.
\<close>

theorem context_body_raises:
  assumes "body (context_enter w) = (Some e, w')"
  shows "with_context torch body w = (Some e, w')
         \<and> trace (snd (with_context torch body w)) = trace w'
         \<and> self (snd (with_context torch body w)) ''process'' = self w' ''process''
         \<and> getattr (self (context_enter w)) ''loaded'' = Inr (PyBool True)
         \<and> (self w' ''loaded'' = self (context_enter w) ''loaded'' \<longrightarrow>
              getattr (self (snd (with_context torch body w))) ''loaded'' = Inr (PyBool True))"
proof -
  have r: "with_context torch body w = (Some e, w')"
    using assms by (simp add: with_context_def)
  have l: "self (context_enter w) ''loaded'' = Some (PyBool True)"
    by (simp add: context_enter_def self_setattr)
  then have "getattr (self (context_enter w)) ''loaded'' = Inr (PyBool True)"
    by (rule getattr_instance)
  moreover have "self w' ''loaded'' = self (context_enter w) ''loaded'' \<longrightarrow>
      getattr (self w') ''loaded'' = Inr (PyBool True)"
    using l by (simp add: getattr_instance)
  ultimately show ?thesis
    using r by simp
qed


theorem context_body_raises_witness:
  "with_context torch_ok (raise (OtherError ''boom''))
       (fresh (attributes ''/models'' (Device ''cuda'' (Some 0)) float16)) =
     (Some (OtherError ''boom''),
      context_enter (fresh (attributes ''/models'' (Device ''cuda'' (Some 0)) float16)))
   \<and> trace (snd (with_context torch_ok (raise (OtherError ''boom''))
       (fresh (attributes ''/models'' (Device ''cuda'' (Some 0)) float16)))) =
     [SetAttr ''loaded'' (PyBool True)]
   \<and> getattr (self (snd (with_context torch_ok (raise (OtherError ''boom''))
       (fresh (attributes ''/models'' (Device ''cuda'' (Some 0)) float16)))))
       ''loaded'' = Inr (PyBool True)"
proof -
  let ?w = "fresh (attributes ''/models'' (Device ''cuda'' (Some 0)) float16)"
  have b: "raise (OtherError ''boom'') (context_enter ?w) =
      (Some (OtherError ''boom''), context_enter ?w)"
    by (simp add: raise_def)
  have t: "trace (context_enter ?w) = [SetAttr ''loaded'' (PyBool True)]"
    by (simp add: context_enter_def trace_setattr fresh_def)
  show ?thesis
    using context_body_raises
            [of "raise (OtherError ''boom'')" ?w "OtherError ''boom''" "context_enter ?w"
                torch_ok] b t
    by simp
qed


subsection \<open>The default instance\<close>

text \<open>
  C4. Every instance \<open>get_default_instance\<close> returns is on the resolved device and
  its dtype is \<open>float16\<close> if the device type is \<open>cuda\<close> and \<open>float32\<close> for every
  other device type. The call returns such an instance whenever the device is
  resolved, the configuration in use gives a string for \<open>enfugue.engine.cache\<close>
  and the expansion of that string, if it begins with a tilde, returns.
\<close>

theorem default_instance_dtype:
  "(get_default_instance expanduser get_optimal_device get_local_configuration
        APIConfiguration = Inr obj \<longrightarrow>
      (\<exists>d. get_optimal_device = Inr d
         \<and> getattr obj ''device'' = Inr (PyDevice d)
         \<and> getattr obj ''dtype'' =
             Inr (PyDtype (if type d = ''cuda'' then float16 else float32))))
   \<and> (get_optimal_device = Inr d
        \<and> (get_local_configuration = Inr c
             \<or> (\<exists>e. get_local_configuration = Inl e) \<and> APIConfiguration = Inr c)
        \<and> configuration_get c ''enfugue.engine.cache'' (PyStr ''~/.cache/enfugue/other'')
             = Inr (PyStr s)
        \<and> (if startswith s ''~'' then expanduser s else Inr s) = Inr p \<longrightarrow>
      (\<exists>obj. get_default_instance expanduser get_optimal_device get_local_configuration
                 APIConfiguration = Inr obj
         \<and> getattr obj ''device'' = Inr (PyDevice d)
         \<and> getattr obj ''dtype'' =
             Inr (PyDtype (if type d = ''cuda'' then float16 else float32))))"
proof -
  have a: "get_default_instance expanduser get_optimal_device get_local_configuration
        APIConfiguration = Inr obj \<longrightarrow>
      (\<exists>d. get_optimal_device = Inr d
         \<and> getattr obj ''device'' = Inr (PyDevice d)
         \<and> getattr obj ''dtype'' =
             Inr (PyDtype (if type d = ''cuda'' then float16 else float32)))"
  proof
    assume "get_default_instance expanduser get_optimal_device get_local_configuration
        APIConfiguration = Inr obj"
    then obtain d' s' where "get_optimal_device = Inr d'"
        and "obj = attributes s' d' (if type d' = ''cuda'' then float16 else float32)"
      using get_default_instance_Inr by blast
    then have "get_optimal_device = Inr d'
         \<and> getattr obj ''device'' = Inr (PyDevice d')
         \<and> getattr obj ''dtype'' =
             Inr (PyDtype (if type d' = ''cuda'' then float16 else float32))"
      by (simp only: getattr_attributes)
    then show "\<exists>d. get_optimal_device = Inr d
         \<and> getattr obj ''device'' = Inr (PyDevice d)
         \<and> getattr obj ''dtype'' =
             Inr (PyDtype (if type d = ''cuda'' then float16 else float32))"
      by (rule exI [where x = d'])
  qed
  have b: "get_optimal_device = Inr d
        \<and> (get_local_configuration = Inr c
             \<or> (\<exists>e. get_local_configuration = Inl e) \<and> APIConfiguration = Inr c)
        \<and> configuration_get c ''enfugue.engine.cache'' (PyStr ''~/.cache/enfugue/other'')
             = Inr (PyStr s)
        \<and> (if startswith s ''~'' then expanduser s else Inr s) = Inr p \<longrightarrow>
      (\<exists>obj. get_default_instance expanduser get_optimal_device get_local_configuration
                 APIConfiguration = Inr obj
         \<and> getattr obj ''device'' = Inr (PyDevice d)
         \<and> getattr obj ''dtype'' =
             Inr (PyDtype (if type d = ''cuda'' then float16 else float32)))"
  proof (intro impI, elim conjE)
    let ?t = "if type d = ''cuda'' then float16 else float32"
    assume g: "get_optimal_device = Inr d"
      and l: "get_local_configuration = Inr c
             \<or> (\<exists>e. get_local_configuration = Inl e) \<and> APIConfiguration = Inr c"
      and k: "configuration_get c ''enfugue.engine.cache'' (PyStr ''~/.cache/enfugue/other'')
             = Inr (PyStr s)"
      and x: "(if startswith s ''~'' then expanduser s else Inr s) = Inr p"
    have i: "SupportModel_init expanduser (PyStr s) d ?t = Inr (attributes p d ?t)"
      by (simp only: SupportModel_init_str x sum.case)
    from l have "get_default_instance expanduser get_optimal_device get_local_configuration
        APIConfiguration = Inr (attributes p d ?t)"
    proof
      assume "get_local_configuration = Inr c"
      then show ?thesis
        by (simp only: g get_default_instance_primary k i sum.case)
    next
      assume "(\<exists>e. get_local_configuration = Inl e) \<and> APIConfiguration = Inr c"
      then obtain e where "get_local_configuration = Inl e" and "APIConfiguration = Inr c"
        by blast
      then show ?thesis
        by (simp only: g get_default_instance_fallback k i sum.case)
    qed
    then have "get_default_instance expanduser get_optimal_device get_local_configuration
                 APIConfiguration = Inr (attributes p d ?t)
         \<and> getattr (attributes p d ?t) ''device'' = Inr (PyDevice d)
         \<and> getattr (attributes p d ?t) ''dtype'' = Inr (PyDtype ?t)"
      by (simp only: getattr_attributes)
    then show "\<exists>obj. get_default_instance expanduser get_optimal_device
                 get_local_configuration APIConfiguration = Inr obj
         \<and> getattr obj ''device'' = Inr (PyDevice d)
         \<and> getattr obj ''dtype'' = Inr (PyDtype ?t)"
      by (rule exI [where x = "attributes p d ?t"])
  qed
  from a b show ?thesis
    by (rule conjI)
qed


theorem default_instance_dtype_witness:
  "(\<exists>obj. get_default_instance (posix_expanduser env_user) (Inr (Device ''cuda'' (Some 0)))
            (Inr [''enfugue.engine.cache'' \<mapsto> Inr (PyStr ''/srv/cache'')]) (Inr Map.empty)
            = Inr obj
         \<and> getattr obj ''dtype'' = Inr (PyDtype float16))
   \<and> (\<exists>obj. get_default_instance (posix_expanduser env_user) (Inr (Device ''cpu'' None))
            (Inr Map.empty) (Inr Map.empty) = Inr obj
         \<and> getattr obj ''dtype'' = Inr (PyDtype float32))
   \<and> (\<exists>obj. get_default_instance (posix_expanduser env_user) (Inr (Device ''mps'' None))
            (Inl (OtherError ''no configuration'')) (Inr Map.empty) = Inr obj
         \<and> getattr obj ''dtype'' = Inr (PyDtype float32))"
proof -
  let ?x = "posix_expanduser env_user"
  let ?c = "[''enfugue.engine.cache'' \<mapsto> Inr (PyStr ''/srv/cache'')] :: configuration"
  have g1: "configuration_get ?c ''enfugue.engine.cache'' (PyStr ''~/.cache/enfugue/other'')
      = Inr (PyStr ''/srv/cache'')"
    by (simp add: configuration_get_def)
  have g2: "configuration_get Map.empty ''enfugue.engine.cache''
      (PyStr ''~/.cache/enfugue/other'') = Inr (PyStr ''~/.cache/enfugue/other'')"
    by (simp add: configuration_get_def)
  have x1: "(if startswith ''/srv/cache'' ''~'' then ?x ''/srv/cache'' else Inr ''/srv/cache'')
      = Inr ''/srv/cache''"
    by (simp add: startswith_def)
  have x2: "(if startswith ''~/.cache/enfugue/other'' ''~'' then ?x ''~/.cache/enfugue/other''
       else Inr ''~/.cache/enfugue/other'') = Inr ''/home/user/.cache/enfugue/other''"
    by (simp add: startswith_def posix_expanduser_def userhome_def find_sep_def rstrip_sep_def
        env_user_def)
  have t: "type (Device ''cuda'' (Some 0)) = ''cuda''" "type (Device ''cpu'' None) \<noteq> ''cuda''"
    "type (Device ''mps'' None) \<noteq> ''cuda''"
    by simp_all
  have "\<exists>obj. get_default_instance ?x (Inr (Device ''cuda'' (Some 0))) (Inr ?c) (Inr Map.empty)
            = Inr obj
         \<and> getattr obj ''dtype'' = Inr (PyDtype float16)"
    using default_instance_dtype
            [where get_optimal_device = "Inr (Device ''cuda'' (Some 0))"
               and d = "Device ''cuda'' (Some 0)" and expanduser = ?x
               and get_local_configuration = "Inr ?c" and c = ?c
               and APIConfiguration = "Inr Map.empty"
               and s = "''/srv/cache''" and p = "''/srv/cache''"]
          g1 x1 t(1)
    by auto
  moreover have "\<exists>obj. get_default_instance ?x (Inr (Device ''cpu'' None))
            (Inr Map.empty) (Inr Map.empty) = Inr obj
         \<and> getattr obj ''dtype'' = Inr (PyDtype float32)"
    using default_instance_dtype
            [where get_optimal_device = "Inr (Device ''cpu'' None)"
               and d = "Device ''cpu'' None" and expanduser = ?x
               and get_local_configuration = "Inr Map.empty" and c = Map.empty
               and APIConfiguration = "Inr Map.empty"
               and s = "''~/.cache/enfugue/other''"
               and p = "''/home/user/.cache/enfugue/other''"]
          g2 x2 t(2)
    by auto
  moreover have "\<exists>obj. get_default_instance ?x (Inr (Device ''mps'' None))
            (Inl (OtherError ''no configuration'')) (Inr Map.empty) = Inr obj
         \<and> getattr obj ''dtype'' = Inr (PyDtype float32)"
    using default_instance_dtype
            [where get_optimal_device = "Inr (Device ''mps'' None)"
               and d = "Device ''mps'' None" and expanduser = ?x
               and get_local_configuration = "Inl (OtherError ''no configuration'')"
               and c = Map.empty and APIConfiguration = "Inr Map.empty"
               and s = "''~/.cache/enfugue/other''"
               and p = "''/home/user/.cache/enfugue/other''"]
          g2 x2 t(3)
    by auto
  ultimately show ?thesis
    by blast
qed


text \<open>
  C5 (as amended). A failure of the device resolution leaves the call. When the
  device is resolved and \<open>get_local_configuration()\<close> raises, that exception is
  discarded and the call continues with \<open>APIConfiguration()\<close>: its outcome is the
  exception of \<open>APIConfiguration()\<close>, or of the lookup of
  \<open>enfugue.engine.cache\<close> in it, or else the outcome of the constructor on the
  value found. In particular the instance is returned with the expansion of
  \<open>~/.cache/enfugue/other\<close> as its model directory when the key is unset, and with
  the configured path when the key holds a string.
\<close>

theorem default_instance_configuration_fallback:
  "(get_optimal_device = Inl e' \<longrightarrow>
      get_default_instance expanduser get_optimal_device get_local_configuration
          APIConfiguration = Inl e')
   \<and> (get_optimal_device = Inr d \<and> get_local_configuration = Inl e \<longrightarrow>
      get_default_instance expanduser get_optimal_device get_local_configuration
          APIConfiguration =
        (case APIConfiguration of
           Inl e' \<Rightarrow> Inl e'
         | Inr c \<Rightarrow>
             (case configuration_get c
                     ''enfugue.engine.cache'' (PyStr ''~/.cache/enfugue/other'') of
                Inl e' \<Rightarrow> Inl e'
              | Inr v \<Rightarrow>
                  SupportModel_init expanduser v d
                    (if type d = ''cuda'' then float16 else float32))))
   \<and> (get_optimal_device = Inr d \<and> get_local_configuration = Inl e
        \<and> APIConfiguration = Inr c \<and> c ''enfugue.engine.cache'' = None
        \<and> expanduser ''~/.cache/enfugue/other'' = Inr p \<longrightarrow>
      (\<exists>obj. get_default_instance expanduser get_optimal_device get_local_configuration
                 APIConfiguration = Inr obj
         \<and> getattr obj ''model_dir'' = Inr (PyStr p)
         \<and> getattr obj ''device'' = Inr (PyDevice d)))
   \<and> (get_optimal_device = Inr d \<and> get_local_configuration = Inl e
        \<and> APIConfiguration = Inr c \<and> c ''enfugue.engine.cache'' = Some (Inr (PyStr s))
        \<and> (if startswith s ''~'' then expanduser s else Inr s) = Inr p \<longrightarrow>
      (\<exists>obj. get_default_instance expanduser get_optimal_device get_local_configuration
                 APIConfiguration = Inr obj
         \<and> getattr obj ''model_dir'' = Inr (PyStr p)
         \<and> getattr obj ''device'' = Inr (PyDevice d)))"
proof -
  have s: "startswith ''~/.cache/enfugue/other'' ''~''"
    by (simp add: startswith_def)
  have a: "get_optimal_device = Inl e' \<longrightarrow>
      get_default_instance expanduser get_optimal_device get_local_configuration
          APIConfiguration = Inl e'"
    by (simp add: get_default_instance_device_raises)
  have b: "get_optimal_device = Inr d \<and> get_local_configuration = Inl e \<longrightarrow>
      get_default_instance expanduser get_optimal_device get_local_configuration
          APIConfiguration =
        (case APIConfiguration of
           Inl e' \<Rightarrow> Inl e'
         | Inr c \<Rightarrow>
             (case configuration_get c
                     ''enfugue.engine.cache'' (PyStr ''~/.cache/enfugue/other'') of
                Inl e' \<Rightarrow> Inl e'
              | Inr v \<Rightarrow>
                  SupportModel_init expanduser v d
                    (if type d = ''cuda'' then float16 else float32)))"
    by (simp add: get_default_instance_fallback)
  have c: "get_optimal_device = Inr d \<and> get_local_configuration = Inl e
        \<and> APIConfiguration = Inr c \<and> c ''enfugue.engine.cache'' = None
        \<and> expanduser ''~/.cache/enfugue/other'' = Inr p \<longrightarrow>
      (\<exists>obj. get_default_instance expanduser get_optimal_device get_local_configuration
                 APIConfiguration = Inr obj
         \<and> getattr obj ''model_dir'' = Inr (PyStr p)
         \<and> getattr obj ''device'' = Inr (PyDevice d))"
    using s
    by (simp add: get_default_instance_fallback configuration_get_def SupportModel_init_str
        getattr_attributes)
  have d: "get_optimal_device = Inr d \<and> get_local_configuration = Inl e
        \<and> APIConfiguration = Inr c \<and> c ''enfugue.engine.cache'' = Some (Inr (PyStr s))
        \<and> (if startswith s ''~'' then expanduser s else Inr s) = Inr p \<longrightarrow>
      (\<exists>obj. get_default_instance expanduser get_optimal_device get_local_configuration
                 APIConfiguration = Inr obj
         \<and> getattr obj ''model_dir'' = Inr (PyStr p)
         \<and> getattr obj ''device'' = Inr (PyDevice d))"
    by (simp add: get_default_instance_fallback configuration_get_def SupportModel_init_str
        getattr_attributes)
  show ?thesis
    using a b c d by blast
qed


theorem default_instance_configuration_fallback_witness:
  "(\<exists>obj. get_default_instance (posix_expanduser env_user) (Inr (Device ''cpu'' None))
            (Inl (OtherError ''no configuration'')) (Inr Map.empty) = Inr obj
         \<and> getattr obj ''model_dir'' = Inr (PyStr ''/home/user/.cache/enfugue/other''))
   \<and> (\<exists>obj. get_default_instance (posix_expanduser env_user) (Inr (Device ''cpu'' None))
            (Inl (OtherError ''no configuration''))
            (Inr [''enfugue.engine.cache'' \<mapsto> Inr (PyStr ''/srv/cache'')]) = Inr obj
         \<and> getattr obj ''model_dir'' = Inr (PyStr ''/srv/cache''))
   \<and> get_default_instance (posix_expanduser env_user) (Inl (OtherError ''no device''))
        (Inl (OtherError ''no configuration'')) (Inr Map.empty) =
      Inl (OtherError ''no device'')"
proof -
  let ?x = "posix_expanduser env_user"
  let ?c = "[''enfugue.engine.cache'' \<mapsto> Inr (PyStr ''/srv/cache'')] :: configuration"
  let ?e = "OtherError ''no configuration''"
  have x1: "(if startswith ''/srv/cache'' ''~'' then ?x ''/srv/cache'' else Inr ''/srv/cache'')
      = Inr ''/srv/cache''"
    by (simp add: startswith_def)
  have x2: "?x ''~/.cache/enfugue/other'' = Inr ''/home/user/.cache/enfugue/other''"
    by (simp add: startswith_def posix_expanduser_def userhome_def find_sep_def rstrip_sep_def
        env_user_def)
  have k: "?c ''enfugue.engine.cache'' = Some (Inr (PyStr ''/srv/cache''))"
    "(Map.empty :: configuration) ''enfugue.engine.cache'' = None"
    by simp_all
  have "\<exists>obj. get_default_instance ?x (Inr (Device ''cpu'' None)) (Inl ?e) (Inr Map.empty)
            = Inr obj
         \<and> getattr obj ''model_dir'' = Inr (PyStr ''/home/user/.cache/enfugue/other'')"
    using default_instance_configuration_fallback
            [where get_optimal_device = "Inr (Device ''cpu'' None)"
               and d = "Device ''cpu'' None" and get_local_configuration = "Inl ?e"
               and e = ?e and expanduser = ?x and APIConfiguration = "Inr Map.empty"
               and c = Map.empty and p = "''/home/user/.cache/enfugue/other''"]
          x2 k(2)
    by blast
  moreover have "\<exists>obj. get_default_instance ?x (Inr (Device ''cpu'' None)) (Inl ?e) (Inr ?c)
            = Inr obj
         \<and> getattr obj ''model_dir'' = Inr (PyStr ''/srv/cache'')"
    using default_instance_configuration_fallback
            [where get_optimal_device = "Inr (Device ''cpu'' None)"
               and d = "Device ''cpu'' None" and get_local_configuration = "Inl ?e"
               and e = ?e and expanduser = ?x and APIConfiguration = "Inr ?c"
               and c = ?c and s = "''/srv/cache''" and p = "''/srv/cache''"]
          x1 k(1)
    by blast
  moreover have "get_default_instance ?x (Inl (OtherError ''no device'')) (Inl ?e)
        (Inr Map.empty) = Inl (OtherError ''no device'')"
    using default_instance_configuration_fallback
            [where get_optimal_device = "Inl (OtherError ''no device'')"
               and e' = "OtherError ''no device''" and get_local_configuration = "Inl ?e"
               and expanduser = ?x and APIConfiguration = "Inr Map.empty"]
    by blast
  ultimately show ?thesis
    by blast
qed


text \<open>
  C5 as first stated has the call succeed whenever the device is resolved. The
  \<open>try\<close> covers \<open>get_local_configuration()\<close> only: with the device resolved, an
  exception of the handler's own import and call of \<open>APIConfiguration\<close> leaves the
  method, and so does the constructor's \<open>AttributeError\<close> on a configured value
  that is not a string.
\<close>

theorem default_instance_fallback_raises_counterexample:
  "get_default_instance (posix_expanduser env_user) (Inr (Device ''cpu'' None))
       (Inl (OtherError ''no configuration''))
       (Inl (OtherError ''ImportError: pibble'')) =
     Inl (OtherError ''ImportError: pibble'')
   \<and> get_default_instance (posix_expanduser env_user) (Inr (Device ''cpu'' None))
       (Inl (OtherError ''no configuration''))
       (Inr [''enfugue.engine.cache'' \<mapsto> Inr PyNone]) =
     Inl (AttributeError ''startswith'')"
  by (simp add: get_default_instance_def configuration_get_def SupportModel_init_def)


subsection \<open>The order of the cleanup\<close>

text \<open>
  C6 (as amended). When \<open>self.device\<close> is a device of type \<open>t\<close>, the code after
  the \<open>yield\<close> does, in this order: write \<open>loaded = False\<close>; delete \<open>process\<close>
  if the instance holds a processor; call \<open>torch.cuda.empty_cache()\<close> if \<open>t\<close> is
  \<open>cuda\<close>, else \<open>torch.mps.empty_cache()\<close> if \<open>t\<close> is \<open>mps\<close>, else nothing;
  and, if that call returned, \<open>gc.collect()\<close> once, last. Its outcome is the
  outcome of the cache release; in the state it leaves \<open>loaded\<close> is \<open>False\<close> and
  the instance attribute \<open>process\<close> is gone, whether the release returned or
  raised.
\<close>

theorem context_exit_order:
  assumes "device_type (self w) = Inr t"
  shows "fst (context_exit torch w) =
           (if t = ''cuda'' then cuda_empty_cache torch
            else if t = ''mps'' then mps_empty_cache torch
            else None)
         \<and> self (snd (context_exit torch w)) =
             (if held (self w)
              then (self w)(''loaded'' \<mapsto> PyBool False, ''process'' := None)
              else (self w)(''loaded'' \<mapsto> PyBool False))
         \<and> trace (snd (context_exit torch w)) =
             trace w
             @ [SetAttr ''loaded'' (PyBool False)]
             @ (if held (self w) then [DelAttr ''process''] else [])
             @ (if t = ''cuda'' then [CudaEmptyCache]
                else if t = ''mps'' then [MpsEmptyCache] else [])
             @ (if fst (context_exit torch w) = None then [GcCollect] else [])"
  using assms
  by (simp add: context_exit_result trace_context_exit self_context_exit cache_release_def
      cache_calls_def)


theorem context_exit_order_witness:
  "context_exit torch_ok (fresh
      ((attributes ''/models'' (Device ''cuda'' (Some 0)) float16)
         (''process'' \<mapsto> PyProcessor (SupportModelImageProcessor [])))) =
     (None,
      \<lparr>self = (attributes ''/models'' (Device ''cuda'' (Some 0)) float16)
                 (''loaded'' \<mapsto> PyBool False),
       trace = [SetAttr ''loaded'' (PyBool False), DelAttr ''process'', CudaEmptyCache,
                GcCollect]\<rparr>)
   \<and> context_exit torch_ok (fresh (attributes ''/models'' (Device ''mps'' None) float32)) =
     (None,
      \<lparr>self = (attributes ''/models'' (Device ''mps'' None) float32)
                 (''loaded'' \<mapsto> PyBool False),
       trace = [SetAttr ''loaded'' (PyBool False), MpsEmptyCache, GcCollect]\<rparr>)"
proof -
  let ?p = "PyProcessor (SupportModelImageProcessor [])"
  let ?a = "(attributes ''/models'' (Device ''cuda'' (Some 0)) float16)(''process'' \<mapsto> ?p)"
  let ?b = "attributes ''/models'' (Device ''mps'' None) float32"
  have a: "device_type (self (fresh ?a)) = Inr ''cuda''"
    by (simp add: fresh_def device_type_def getattr_def attributes_def)
  have b: "device_type (self (fresh ?b)) = Inr ''mps''"
    by (simp add: fresh_def device_type_attributes)
  have ha: "held (self (fresh ?a))"
    by (simp add: fresh_def held_def)
  have hb: "\<not> held (self (fresh ?b))"
    by (simp add: fresh_def held_def getattr_attributes)
  have ta: "trace (fresh ?a) = []" "self (fresh ?a) = ?a"
    and tb: "trace (fresh ?b) = []" "self (fresh ?b) = ?b"
    by (simp_all add: fresh_def)
  have ok: "cuda_empty_cache torch_ok = None" "mps_empty_cache torch_ok = None"
    by (simp_all add: torch_ok_def)
  have da: "?a(''loaded'' \<mapsto> PyBool False, ''process'' := None) =
      (attributes ''/models'' (Device ''cuda'' (Some 0)) float16)(''loaded'' \<mapsto> PyBool False)"
    by (rule ext) (simp add: getattr_attributes)
  have "context_exit torch_ok (fresh ?a) =
      (None, \<lparr>self = ?a(''loaded'' \<mapsto> PyBool False, ''process'' := None),
              trace = [SetAttr ''loaded'' (PyBool False), DelAttr ''process'', CudaEmptyCache,
                       GcCollect]\<rparr>)"
    using context_exit_order [OF a, of torch_ok] ha ta ok
    by (cases "context_exit torch_ok (fresh ?a)") simp
  moreover have "context_exit torch_ok (fresh ?b) =
      (None, \<lparr>self = ?b(''loaded'' \<mapsto> PyBool False),
              trace = [SetAttr ''loaded'' (PyBool False), MpsEmptyCache, GcCollect]\<rparr>)"
    using context_exit_order [OF b, of torch_ok] hb tb ok
    by (cases "context_exit torch_ok (fresh ?b)") simp
  ultimately show ?thesis
    by (simp only: da)
qed


text \<open>
  C6 as first stated ends every normal exit with one \<open>gc.collect()\<close>. The cache
  release is not guarded: on an \<open>mps\<close> device whose runtime has no MPS backend
  \<open>torch.mps.empty_cache()\<close> raises, the exception leaves the context, and
  \<open>gc.collect()\<close> is not reached.
\<close>

theorem context_exit_release_raises_counterexample:
  "context_exit torch_no_mps (fresh
      ((attributes ''/models'' (Device ''mps'' None) float32)
         (''process'' \<mapsto> PyProcessor (SupportModelImageProcessor [])))) =
     (Some (RuntimeError ''MPS backend not available''),
      \<lparr>self = (attributes ''/models'' (Device ''mps'' None) float32)
                 (''loaded'' \<mapsto> PyBool False),
       trace = [SetAttr ''loaded'' (PyBool False), DelAttr ''process'', MpsEmptyCache]\<rparr>)
   \<and> GcCollect \<notin> set (trace (snd (context_exit torch_no_mps (fresh
      ((attributes ''/models'' (Device ''mps'' None) float32)
         (''process'' \<mapsto> PyProcessor (SupportModelImageProcessor [])))))))"
proof -
  let ?p = "PyProcessor (SupportModelImageProcessor [])"
  let ?a = "(attributes ''/models'' (Device ''mps'' None) float32)(''process'' \<mapsto> ?p)"
  let ?w = "fresh ?a"
  have a: "device_type (self ?w) = Inr ''mps''"
    by (simp add: fresh_def device_type_def getattr_def attributes_def)
  have h: "held (self ?w)"
    by (simp add: fresh_def held_def)
  have r: "cache_release torch_no_mps ''mps'' = Some (RuntimeError ''MPS backend not available'')"
    by (simp add: cache_release_def torch_no_mps_def)
  have da: "?a(''loaded'' \<mapsto> PyBool False, ''process'' := None) =
      (attributes ''/models'' (Device ''mps'' None) float32)(''loaded'' \<mapsto> PyBool False)"
    by (rule ext) (simp add: getattr_attributes)
  have f: "fst (context_exit torch_no_mps ?w) = Some (RuntimeError ''MPS backend not available'')"
    using context_exit_result [OF a, of torch_no_mps] r by simp
  have s: "self (snd (context_exit torch_no_mps ?w)) =
      (attributes ''/models'' (Device ''mps'' None) float32)(''loaded'' \<mapsto> PyBool False)"
    using h da by (simp add: self_context_exit fresh_def)
  have t: "trace (snd (context_exit torch_no_mps ?w)) =
      [SetAttr ''loaded'' (PyBool False), DelAttr ''process'', MpsEmptyCache]"
    using trace_context_exit [OF a, of torch_no_mps] h r
    by (simp add: cache_calls_def fresh_def)
  show ?thesis
    using f s t by (cases "context_exit torch_no_mps ?w") simp
qed


subsection \<open>A scenario on the CPU\<close>

text \<open>
  C7. Let \<open>home\<close> be the directory the tilde of \<open>~/models/foo\<close> expands to. A
  \<open>SupportModel\<close> built from \<open>~/models/foo\<close>, a CPU device and \<open>float32\<close>
  stores \<open>home/models/foo\<close>; entering and leaving its context with an empty body
  returns normally, whatever the torch runtime, leaves \<open>loaded\<close> at \<open>False\<close>,
  and the trace holds one \<open>gc.collect()\<close> and no cache release.
\<close>

theorem scenario_home_cpu:
  assumes "expanduser ''~/models/foo'' = Inr (home @ ''/models/foo'')"
  shows "\<exists>obj. SupportModel_init expanduser (PyStr ''~/models/foo'') (Device ''cpu'' i) float32
                  = Inr obj
         \<and> getattr obj ''model_dir'' = Inr (PyStr (home @ ''/models/foo''))
         \<and> fst (with_context torch pass (fresh obj)) = None
         \<and> getattr (self (snd (with_context torch pass (fresh obj)))) ''loaded''
             = Inr (PyBool False)
         \<and> trace (snd (with_context torch pass (fresh obj)))
             = [SetAttr ''loaded'' (PyBool True), SetAttr ''loaded'' (PyBool False), GcCollect]
         \<and> count_list (trace (snd (with_context torch pass (fresh obj)))) GcCollect = 1
         \<and> count_list (trace (snd (with_context torch pass (fresh obj)))) CudaEmptyCache = 0
         \<and> count_list (trace (snd (with_context torch pass (fresh obj)))) MpsEmptyCache = 0"
proof -
  let ?obj = "attributes (home @ ''/models/foo'') (Device ''cpu'' i) float32"
  let ?w = "context_enter (fresh ?obj)"
  have c: "SupportModel_init expanduser (PyStr ''~/models/foo'') (Device ''cpu'' i) float32
      = Inr ?obj"
    using assms by (simp add: SupportModel_init_str startswith_def)
  have w: "with_context torch pass (fresh ?obj) = context_exit torch ?w"
    by (simp add: with_context_def pass_def)
  have d: "device_type (self ?w) = Inr ''cpu''"
    by (simp add: context_enter_def self_setattr fresh_def device_type_def getattr_def
        attributes_def)
  have h: "\<not> held (self ?w)"
    by (simp add: context_enter_def self_setattr fresh_def held_def attributes_def)
  have r: "cache_release torch ''cpu'' = None" "cache_calls ''cpu'' = []"
    by (simp_all add: cache_release_def cache_calls_def)
  have "trace ?w = [SetAttr ''loaded'' (PyBool True)]"
    by (simp add: context_enter_def trace_setattr fresh_def)
  then have t: "trace (snd (context_exit torch ?w)) =
      [SetAttr ''loaded'' (PyBool True), SetAttr ''loaded'' (PyBool False), GcCollect]"
    using h r by (simp add: trace_context_exit [OF d])
  have l: "getattr (self (snd (context_exit torch ?w))) ''loaded'' = Inr (PyBool False)"
    by (simp add: self_context_exit getattr_def)
  have f: "fst (context_exit torch ?w) = None"
    using context_exit_result [OF d, of torch] r by simp
  show ?thesis
    using c w t l f by (simp add: getattr_attributes)
qed


theorem scenario_home_cpu_witness:
  "\<exists>obj. SupportModel_init (posix_expanduser env_user) (PyStr ''~/models/foo'')
            (Device ''cpu'' None) float32 = Inr obj
      \<and> getattr obj ''model_dir'' = Inr (PyStr ''/home/user/models/foo'')
      \<and> trace (snd (with_context torch_ok pass (fresh obj)))
          = [SetAttr ''loaded'' (PyBool True), SetAttr ''loaded'' (PyBool False), GcCollect]"
proof -
  have e: "posix_expanduser env_user ''~/models/foo'' = Inr (''/home/user'' @ ''/models/foo'')"
    by (simp add: posix_expanduser_def startswith_def userhome_def find_sep_def rstrip_sep_def
        env_user_def)
  show ?thesis
    using scenario_home_cpu [of "posix_expanduser env_user" "''/home/user''" None torch_ok] e
    by auto
qed


subsection \<open>The base image processor\<close>

text \<open>
  C8. Calling the base \<open>SupportModelImageProcessor\<close> on any image raises
  \<open>NotImplementedError\<close> and returns no value; \<open>__enter__\<close> returns the
  processor itself and \<open>__exit__\<close> returns \<open>None\<close>; none of the three changes
  the processor or the rest of the state.
\<close>

theorem base_processor_contract:
  "fst (SupportModelImageProcessor_call img s) =
     Inl (NotImplementedError ''Implementation did not override __call__'')
   \<and> (\<nexists>v. fst (SupportModelImageProcessor_call img s) = Inr v)
   \<and> snd (SupportModelImageProcessor_call img s) = s
   \<and> SupportModelImageProcessor_enter s = (Inr (fst s), s)
   \<and> SupportModelImageProcessor_exit args s = (Inr PyNone, s)"
  by (simp add: SupportModelImageProcessor_call_def SupportModelImageProcessor_enter_def
      SupportModelImageProcessor_exit_def)


subsection \<open>The loaded flag before the first entry\<close>

text \<open>
  C9. Every instance the constructor builds has no attribute \<open>loaded\<close>, neither in
  the instance nor in the class, so reading it raises \<open>AttributeError\<close>; entering
  the context creates it with the value \<open>True\<close>.
\<close>

theorem loaded_created_at_entry:
  "(SupportModel_init expanduser model_dir device dtype = Inr obj \<longrightarrow>
      getattr obj ''loaded'' = Inl (AttributeError ''loaded'') \<and> obj ''loaded'' = None)
   \<and> SupportModel_class ''loaded'' = None
   \<and> getattr (self (context_enter w)) ''loaded'' = Inr (PyBool True)"
proof -
  have "SupportModel_init expanduser model_dir device dtype = Inr obj \<longrightarrow>
      getattr obj ''loaded'' = Inl (AttributeError ''loaded'') \<and> obj ''loaded'' = None"
    using SupportModel_init_Inr [of expanduser model_dir device dtype obj]
    by (auto simp: getattr_attributes)
  then show ?thesis
    by (simp add: SupportModel_class_def context_enter_def self_setattr getattr_def)
qed


theorem loaded_created_at_entry_witness:
  "(\<exists>obj. SupportModel_init (posix_expanduser env_user) (PyStr ''~/models'')
            (Device ''cpu'' None) float32 = Inr obj
      \<and> getattr obj ''loaded'' = Inl (AttributeError ''loaded''))
   \<and> getattr (self (context_enter
        (fresh (attributes ''/home/user/models'' (Device ''cpu'' None) float32)))) ''loaded''
      = Inr (PyBool True)"
proof -
  let ?obj = "attributes ''/home/user/models'' (Device ''cpu'' None) float32"
  have c: "SupportModel_init (posix_expanduser env_user) (PyStr ''~/models'')
      (Device ''cpu'' None) float32 = Inr ?obj"
    by (simp add: SupportModel_init_str expanduser_env_user startswith_def)
  show ?thesis
    using loaded_created_at_entry
            [of "posix_expanduser env_user" "PyStr ''~/models''" "Device ''cpu'' None" float32
                ?obj "fresh ?obj"] c
    by blast
qed


subsection \<open>Dropping the processor\<close>

text \<open>
  C10. The step that drops the processor never raises. When the attribute reads as
  \<open>None\<close> the deletion is skipped and nothing changes; when the instance holds a
  processor the instance attribute is deleted; in every case \<open>process\<close> then
  reads as \<open>None\<close>, through the class attribute, instead of raising.
\<close>

theorem drop_process_never_fails:
  "fst (drop_process w) = None
   \<and> getattr (self (snd (drop_process w))) ''process'' = Inr PyNone
   \<and> (getattr (self w) ''process'' = Inr PyNone \<longrightarrow> snd (drop_process w) = w)
   \<and> (self w ''process'' = Some (PyProcessor p) \<longrightarrow>
        self (snd (drop_process w)) ''process'' = None
        \<and> trace (snd (drop_process w)) = trace w @ [DelAttr ''process''])"
proof -
  have "getattr (self (snd (drop_process w))) ''process'' = Inr PyNone"
  proof (cases "held (self w)")
    case True
    then show ?thesis
      by (simp add: self_drop_process getattr_process_absent)
  next
    case False
    then show ?thesis
      by (simp add: self_drop_process held_getattr)
  qed
  moreover have "getattr (self w) ''process'' = Inr PyNone \<longrightarrow> snd (drop_process w) = w"
    by (simp add: drop_process_eq held_getattr)
  moreover have "self w ''process'' = Some (PyProcessor p) \<longrightarrow>
        self (snd (drop_process w)) ''process'' = None
        \<and> trace (snd (drop_process w)) = trace w @ [DelAttr ''process'']"
    by (simp add: drop_process_eq held_def self_emit trace_emit)
  ultimately show ?thesis
    by (simp add: drop_process_eq)
qed


theorem drop_process_never_fails_witness:
  "fst (drop_process (fresh [''process'' \<mapsto> PyProcessor (SupportModelImageProcessor [])])) = None
   \<and> getattr (self (snd (drop_process
         (fresh [''process'' \<mapsto> PyProcessor (SupportModelImageProcessor [])])))) ''process''
       = Inr PyNone
   \<and> trace (snd (drop_process
         (fresh [''process'' \<mapsto> PyProcessor (SupportModelImageProcessor [])])))
       = [DelAttr ''process'']
   \<and> snd (drop_process (fresh Map.empty)) = fresh Map.empty"
  using drop_process_never_fails
          [of "fresh [''process'' \<mapsto> PyProcessor (SupportModelImageProcessor [])]"
              "SupportModelImageProcessor []"]
        drop_process_never_fails [of "fresh Map.empty"]
  by (simp add: fresh_def getattr_process_absent)


end
